theory Spec2Isabelle
  imports Main "HOL-Library.Char_ord" "HOL-Library.List_Lexorder" "HOL-Library.Multiset"
begin

section \<open>The dashboard module \<^verbatim>\<open>src/ui.py\<close>\<close>

text \<open>
  The module is user-interface glue over Streamlit: three selectors, a header renderer, a
  report renderer that reads pre-generated HTML from the file system, a style injector and the
  sidebar chrome. Everything the functions do beyond returning a value is made explicit in a
  \<open>world\<close>: the file system they consult, the selections the user has made in the
  dropdowns, the elements rendered so far, the log of file-system calls, and the table of
  \<^verbatim>\<open>st.cache_data\<close>. A raised exception is the \<open>Inl\<close> of a sum.
\<close>

subsection \<open>Text, paths and the file system\<close>

text \<open>
  Python's \<^verbatim>\<open>Text\<close> is \<^verbatim>\<open>str\<close>. A text is held as the list of
  its UTF-8 bytes: the byte-wise lexicographic order of UTF-8 is the code-point order Python
  compares strings by. The pictographs of the source are written out as their four bytes.
\<close>

type_synonym Text = string

definition briefcase :: Text where
  "briefcase = [CHR 0xF0, CHR 0x9F, CHR 0x92, CHR 0xBC]"

definition calendar :: Text where
  "calendar = [CHR 0xF0, CHR 0x9F, CHR 0x93, CHR 0x85]"

definition tear_off_calendar :: Text where
  "tear_off_calendar = [CHR 0xF0, CHR 0x9F, CHR 0x93, CHR 0x86]"

definition chart_up :: Text where
  "chart_up = [CHR 0xF0, CHR 0x9F, CHR 0x93, CHR 0x88]"

definition bar_chart :: Text where
  "bar_chart = [CHR 0xF0, CHR 0x9F, CHR 0x93, CHR 0x8A]"

definition open_book :: Text where
  "open_book = [CHR 0xF0, CHR 0x9F, CHR 0x93, CHR 0x96]"

definition books :: Text where
  "books = [CHR 0xF0, CHR 0x9F, CHR 0x93, CHR 0x9A]"

definition magnifier :: Text where
  "magnifier = [CHR 0xF0, CHR 0x9F, CHR 0x94, CHR 0x8D]"

text \<open>
  A \<^verbatim>\<open>pathlib.Path\<close> (POSIX flavour) is the list of its parts; two paths compare as
  their part lists do, lexicographically, each part compared as a string. \<open>Path\<close> is the
  constructor from a string: the root (\<^verbatim>\<open>/\<close>, or \<^verbatim>\<open>//\<close> for exactly two
  leading slashes) followed by the components between slashes, empty components and
  \<^verbatim>\<open>.\<close> dropped.
\<close>

type_synonym path = "Text list"

fun split_sep :: "Text \<Rightarrow> Text list" where
  "split_sep [] = [[]]"
| "split_sep (c # cs) =
     (if c = CHR ''/'' then [] # split_sep cs
      else (case split_sep cs of [] \<Rightarrow> [[c]] | x # xs \<Rightarrow> (c # x) # xs))"

definition Path :: "Text \<Rightarrow> path" where
  "Path s =
     (let stripped = dropWhile (\<lambda>c. c = CHR ''/'') s;
          slashes = length s - length stripped;
          root = (if slashes = 0 then [] else if slashes = 2 then [''//''] else [''/''])
      in root @ filter (\<lambda>x. x \<noteq> [] \<and> x \<noteq> ''.'') (split_sep stripped))"

text \<open>
  \<^verbatim>\<open>report_path / report_part\<close> is only applied to a name returned by
  \<^verbatim>\<open>os.listdir\<close>, which is a single component: the child path has one more part.
\<close>

definition joinpath :: "path \<Rightarrow> Text \<Rightarrow> path" where
  "joinpath p name = p @ [name]"

text \<open>
  What the operating system answers for a path: nothing there, a regular file, or a
  directory with the names \<^verbatim>\<open>os.listdir\<close> returns, in the order it returns them.
  \<open>File None\<close> is a regular file that the process may not open for reading.
\<close>

datatype node = File "Text option" | Dir "Text list"

datatype fs_call = IsFile path | IsDir path | ListDir path | Open path

datatype error =
    EntityNotFoundError Text
  | TypeError
  | FileNotFoundError
  | IsADirectoryError
  | NotADirectoryError
  | PermissionError
  | StreamlitAPIException

subsection \<open>The rendered page\<close>

datatype place = Page | Sidebar | Tab nat

datatype element =
    Markdown Text
  | Caption Text
  | Header Text
  | Image Text
  | Html Text
  | Selectbox Text "Text list" nat
  | Tabs "Text list"

text \<open>
  \<^verbatim>\<open>display_report\<close> returns either the list of contents or, on its last branch, an
  exception object as an ordinary value.
\<close>

datatype report_result = Contents "Text list" | ErrorValue error

record world =
  fs :: "path \<Rightarrow> node option"
  picked :: "Text \<Rightarrow> nat"
  page :: "(place \<times> element) list"
  fs_calls :: "fs_call list"
  report_cache :: "path \<Rightarrow> (report_result \<times> (place \<times> element) list) option"

subsection \<open>Library calls\<close>

definition emit :: "place \<Rightarrow> element \<Rightarrow> world \<Rightarrow> world" where
  "emit pl e w = w\<lparr>page := page w @ [(pl, e)]\<rparr>"

definition is_file :: "path \<Rightarrow> world \<Rightarrow> bool \<times> world" where
  "is_file p w =
     ((case fs w p of Some (File _) \<Rightarrow> True | _ \<Rightarrow> False),
      w\<lparr>fs_calls := fs_calls w @ [IsFile p]\<rparr>)"

definition is_dir :: "path \<Rightarrow> world \<Rightarrow> bool \<times> world" where
  "is_dir p w =
     ((case fs w p of Some (Dir _) \<Rightarrow> True | _ \<Rightarrow> False),
      w\<lparr>fs_calls := fs_calls w @ [IsDir p]\<rparr>)"

definition listdir :: "path \<Rightarrow> world \<Rightarrow> (error + Text list) \<times> world" where
  "listdir p w =
     ((case fs w p of
         None \<Rightarrow> Inl FileNotFoundError
       | Some (File _) \<Rightarrow> Inl NotADirectoryError
       | Some (Dir names) \<Rightarrow> Inr names),
      w\<lparr>fs_calls := fs_calls w @ [ListDir p]\<rparr>)"

text \<open>\<^verbatim>\<open>open(p)\<close> followed by \<^verbatim>\<open>.read()\<close>.\<close>

definition open_read :: "path \<Rightarrow> world \<Rightarrow> (error + Text) \<times> world" where
  "open_read p w =
     ((case fs w p of
         None \<Rightarrow> Inl FileNotFoundError
       | Some (Dir _) \<Rightarrow> Inl IsADirectoryError
       | Some (File None) \<Rightarrow> Inl PermissionError
       | Some (File (Some content)) \<Rightarrow> Inr content),
      w\<lparr>fs_calls := fs_calls w @ [Open p]\<rparr>)"

text \<open>
  \<^verbatim>\<open>selectbox\<close> shows the options, each through \<open>format_func\<close>, and returns the
  option the user has picked, unformatted; the first option when the stored index is out of
  range, and \<^verbatim>\<open>None\<close> when there is no option at all.
\<close>

definition selectbox ::
  "place \<Rightarrow> Text \<Rightarrow> Text list \<Rightarrow> (Text \<Rightarrow> Text) \<Rightarrow> world \<Rightarrow> Text option \<times> world" where
  "selectbox pl label options format_func w =
     (let i = (if picked w label < length options then picked w label else 0)
      in ((if options = [] then None else Some (options ! i)),
          emit pl (Selectbox label (map format_func options) i) w))"

text \<open>
  \<^verbatim>\<open>st.tabs\<close> refuses an empty list of labels ("The input argument to st.tabs must
  contain at least one tab label."); otherwise it renders the tab bar and returns one
  container per label.
\<close>

definition st_tabs :: "Text list \<Rightarrow> world \<Rightarrow> (error + place list) \<times> world" where
  "st_tabs labels w =
     (if labels = [] then (Inl StreamlitAPIException, w)
      else (Inr (map Tab [0..<length labels]), emit Page (Tabs labels) w))"

subsection \<open>The functions of the module\<close>

definition page_style :: Text where
  \<open>page_style = CHR 0x0A # concat (map (\<lambda>l. l @ [CHR 0x0A]) [
    ''        <style>'',
    ''            /* Main area styling */'',
    ''            .main > div {'',
    ''                max-width: 100%;'',
    ''                padding: 1rem 2rem;'',
    ''            }'',
    '''',
    ''            /* Tabs styling */'',
    ''            button[data-baseweb="tab"] div p {'',
    ''                font-size: 16px;'',
    ''                font-weight: 600;'',
    ''            }'',
    '''',
    ''            /* Sidebar styling */'',
    ''            .css-1d391kg {'',
    ''                padding: 2rem 1rem;'',
    ''            }'',
    '''',
    ''            /* Selectbox styling */'',
    ''            .stSelectbox {'',
    ''                margin-bottom: 1.5rem;'',
    ''            }'',
    '''',
    ''            /* Header styling */'',
    ''            .stHeader {'',
    ''                background-color: #f8f9fa;'',
    ''                padding: 1.5rem;'',
    ''                border-radius: 0.5rem;'',
    ''                margin-bottom: 2rem;'',
    ''            }'',
    '''',
    ''            /* Caption styling */'',
    ''            .stCaption {'',
    ''                font-size: 1rem;'',
    ''                color: #6c757d;'',
    ''                margin-bottom: 0.5rem;'',
    ''            }'',
    '''',
    ''            /* Report container styling */'',
    ''            .stReport {'',
    ''                background-color: white;'',
    ''                border-radius: 0.5rem;'',
    ''                box-shadow: 0 2px 4px rgba(0,0,0,0.1);'',
    ''                padding: 1rem;'',
    ''            }'',
    '''',
    ''            /* Sidebar link styling */'',
    ''            .sidebar-link {'',
    ''                display: inline-block;'',
    ''                text-align: center;'',
    ''                width: 100%;'',
    ''                padding: 0.75rem;'',
    ''                margin: 0.5rem 0;'',
    ''                border-radius: 0.5rem;'',
    ''                text-decoration: none;'',
    ''                background-color: #f8f9fa;'',
    ''                color: #1f2937;'',
    ''                font-weight: 500;'',
    ''                transition: all 0.2s ease;'',
    ''            }'',
    '''',
    ''            .sidebar-link:hover {'',
    ''                background-color: #e5e7eb;'',
    ''                transform: translateY(-1px);'',
    ''                box-shadow: 0 2px 4px rgba(0,0,0,0.05);'',
    ''            }'',
    '''',
    ''            /* Logo container styling */'',
    ''            .logo-container {'',
    ''                margin-bottom: 2rem;'',
    ''                padding: 1rem;'',
    ''                background-color: white;'',
    ''                border-radius: 0.5rem;'',
    ''                box-shadow: 0 2px 4px rgba(0,0,0,0.1);'',
    ''            }'',
    ''        </style>'']) @ ''    ''\<close>

definition set_page_container_style :: "world \<Rightarrow> world" where
  "set_page_container_style w = emit Page (Markdown page_style) w"

definition repo_link :: Text where
  "repo_link = ''https://github.com/mnrozhkov/evidently/tree/main/examples/integrations''"

definition evidently_docs :: Text where
  "evidently_docs = ''https://docs.evidentlyai.com/''"

definition display_sidebar_header :: "world \<Rightarrow> (error + unit) \<times> world" where
  \<open>display_sidebar_header w =
     (case open_read (Path ''static/logo.png'') w of
        (Inl e, w1) \<Rightarrow> (Inl e, w1)
      | (Inr logo, w1) \<Rightarrow>
          (let w2 = emit Sidebar (Markdown ''<div class="logo-container">'') w1;
               w3 = emit Sidebar (Image logo) w2;
               w4 = emit Sidebar (Markdown ''</div>'') w3;
               w5 = emit Sidebar (Markdown (''<a class="sidebar-link" href="'' @ repo_link @
                      ''" target="_blank">'' @ books @ '' Source code</a>'')) w4;
               w6 = emit Sidebar (Markdown (''<a class="sidebar-link" href="'' @ evidently_docs @
                      ''" target="_blank">'' @ open_book @ '' Evidently docs</a>'')) w5;
               w7 = emit Sidebar (Markdown (''<hr style='' @ [CHR 0x27] @ ''margin: 2rem 0;'' @
                      [CHR 0x27] @ ''>'')) w6
           in (Inr (), w7)))\<close>

text \<open>
  The helpers \<^verbatim>\<open>period_dir_to_dates_range\<close> and \<^verbatim>\<open>get_report_name\<close> live in
  \<^verbatim>\<open>src/utils.py\<close>; the functions that call them take them as parameters, any
  function that returns a text for every argument.
\<close>

definition select_project :: "Text list \<Rightarrow> world \<Rightarrow> (error + path) \<times> world" where
  "select_project projects w =
     (if projects = [] then (Inl (EntityNotFoundError (magnifier @ '' Projects not found'')), w)
      else (case selectbox Sidebar (briefcase @ '' Select project'') projects id w of
              (None, w1) \<Rightarrow> (Inl TypeError, w1)
            | (Some selected_project, w1) \<Rightarrow> (Inr (Path selected_project), w1)))"

definition select_period ::
  "(Text \<Rightarrow> Text) \<Rightarrow> Text list \<Rightarrow> world \<Rightarrow> (error + Text option) \<times> world" where
  "select_period period_dir_to_dates_range periods w =
     (if periods = [] then (Inl (EntityNotFoundError (magnifier @ '' No periods found'')), w)
      else (case selectbox Sidebar (tear_off_calendar @ '' Select period'') periods
                   period_dir_to_dates_range w of
              (selected_period, w1) \<Rightarrow> (Inr selected_period, w1)))"

definition select_report :: "Text list \<Rightarrow> world \<Rightarrow> (error + Text option) \<times> world" where
  "select_report report_names w =
     (if report_names = [] then (Inl (EntityNotFoundError (magnifier @ '' Reports not found'')), w)
      else (case selectbox Sidebar (chart_up @ '' Select report'') report_names id w of
              (selected_report_name, w1) \<Rightarrow> (Inr selected_report_name, w1)))"

definition display_header :: "(Text \<Rightarrow> Text) \<Rightarrow> Text \<Rightarrow> Text \<Rightarrow> Text \<Rightarrow> world \<Rightarrow> world" where
  \<open>display_header period_dir_to_dates_range project_name period report_name w =
     (let dates_range = period_dir_to_dates_range period;
          w1 = emit Page (Markdown ''<div class="stHeader">'') w;
          w2 = emit Page (Caption (briefcase @ '' Project: '' @ project_name)) w1;
          w3 = emit Page (Header (bar_chart @ '' '' @ report_name)) w2;
          w4 = emit Page (Caption (calendar @ '' Period: '' @ dates_range)) w3
      in emit Page (Markdown ''</div>'') w4)\<close>

text \<open>The loop over \<^verbatim>\<open>zip(tabs, report_parts)\<close>, with the list it appends to.\<close>

fun render_parts ::
  "(place \<times> path) list \<Rightarrow> Text list \<Rightarrow> world \<Rightarrow> (error + Text list) \<times> world" where
  "render_parts [] report_contents w = (Inr report_contents, w)"
| "render_parts ((tab, report_part_path) # rest) report_contents w =
     (case open_read report_part_path w of
        (Inl e, w1) \<Rightarrow> (Inl e, w1)
      | (Inr report_part_content, w1) \<Rightarrow>
          render_parts rest (report_contents @ [report_part_content])
            (emit tab (Html report_part_content) w1))"

text \<open>The body of \<^verbatim>\<open>display_report\<close>, as one run of it executes.\<close>

definition display_report ::
  "(path \<Rightarrow> Text) \<Rightarrow> path \<Rightarrow> world \<Rightarrow> (error + report_result) \<times> world" where
  \<open>display_report get_report_name report_path w =
     (let w1 = emit Page (Markdown ''<div class="stReport">'') w;
          (file, w2) = is_file report_path w1
      in if file then
           (case open_read report_path w2 of
              (Inl e, w3) \<Rightarrow> (Inl e, w3)
            | (Inr report, w3) \<Rightarrow>
                (Inr (Contents [report]),
                 emit Page (Markdown ''</div>'') (emit Page (Html report) w3)))
         else
           (let (dir, w3) = is_dir report_path w2
            in if dir then
                 (case listdir report_path w3 of
                    (Inl e, w4) \<Rightarrow> (Inl e, w4)
                  | (Inr names, w4) \<Rightarrow>
                      (let report_parts = sort (map (joinpath report_path) names);
                           tab_names = map get_report_name report_parts;
                           tab_names_formatted = map (\<lambda>name. chart_up @ '' '' @ name) tab_names
                       in case st_tabs tab_names_formatted w4 of
                            (Inl e, w5) \<Rightarrow> (Inl e, w5)
                          | (Inr tabs, w5) \<Rightarrow>
                              (case render_parts (zip tabs report_parts) [] w5 of
                                 (Inl e, w6) \<Rightarrow> (Inl e, w6)
                               | (Inr report_contents, w6) \<Rightarrow>
                                   (Inr (Contents report_contents),
                                    emit Page (Markdown ''</div>'') w6))))
               else
                 (Inr (ErrorValue (EntityNotFoundError (magnifier @ '' No reports found''))),
                  emit Page (Markdown ''</div>'') w3)))\<close>

text \<open>
  \<^verbatim>\<open>@st.cache_data\<close>: the value a call returned is stored under its argument together
  with the elements the call rendered; a later call with a stored argument returns the stored
  value and replays the elements without running the function. A call that raises stores
  nothing.
\<close>

definition cache_data ::
  "(path \<Rightarrow> world \<Rightarrow> (error + report_result) \<times> world) \<Rightarrow>
   path \<Rightarrow> world \<Rightarrow> (error + report_result) \<times> world" where
  "cache_data f arg w =
     (case report_cache w arg of
        Some (r, rendered) \<Rightarrow> (Inr r, w\<lparr>page := page w @ rendered\<rparr>)
      | None \<Rightarrow>
          (case f arg w of
             (Inl e, w1) \<Rightarrow> (Inl e, w1)
           | (Inr r, w1) \<Rightarrow>
               (Inr r,
                w1\<lparr>report_cache :=
                     (report_cache w1)(arg \<mapsto> (r, drop (length (page w)) (page w1)))\<rparr>)))"

definition display_report_cached ::
  "(path \<Rightarrow> Text) \<Rightarrow> path \<Rightarrow> world \<Rightarrow> (error + report_result) \<times> world" where
  "display_report_cached get_report_name = cache_data (display_report get_report_name)"

subsection \<open>A small file system to run the functions on\<close>

definition example_fs :: "path \<Rightarrow> node option" where
  "example_fs = map_of [
     ([''reports''], Dir [''drift'', ''empty'', ''mixed'', ''quality.html'']),
     ([''reports'', ''quality.html''], File (Some ''<h1>quality</h1>'')),
     ([''reports'', ''drift''], Dir [''b_target.html'', ''a_data.html'']),
     ([''reports'', ''drift'', ''a_data.html''], File (Some ''<p>data</p>'')),
     ([''reports'', ''drift'', ''b_target.html''], File (Some ''<p>target</p>'')),
     ([''reports'', ''empty''], Dir []),
     ([''reports'', ''mixed''], Dir [''part.html'', ''assets'']),
     ([''reports'', ''mixed'', ''part.html''], File (Some ''<p>part</p>'')),
     ([''reports'', ''mixed'', ''assets''], Dir [])]"

definition example_world :: world where
  "example_world =
     \<lparr>fs = example_fs, picked = (\<lambda>label. 1), page = [], fs_calls = [],
      report_cache = (\<lambda>arg. None)\<rparr>"

definition example_content :: "Text \<Rightarrow> Text" where
  "example_content name =
     (if name = ''a_data.html'' then ''<p>data</p>'' else ''<p>target</p>'')"

section \<open>Properties\<close>

subsection \<open>Sorting the children of a directory\<close>

lemma joinpath_less: "(joinpath p a < joinpath p b) = (a < b)"
proof -
  have "irrefl {(u::Text, v). u < v}"
    by (simp add: irrefl_def)
  then have "(joinpath p a < joinpath p b) = (([a], [b]) \<in> lexord {(u, v). u < v})"
    unfolding joinpath_def list_less_def [of "p @ [a]"] by (rule lexord_same_pref_if_irrefl)
  then show ?thesis by simp
qed

lemma joinpath_le: "(joinpath p a \<le> joinpath p b) = (a \<le> b)"
  by (simp add: list_le_def joinpath_less) (simp add: joinpath_def)

lemma insort_joinpath:
  "insort (joinpath p a) (map (joinpath p) xs) = map (joinpath p) (insort a xs)"
  by (induction xs) (simp_all add: joinpath_le)

lemma sort_joinpath: "sort (map (joinpath p) xs) = map (joinpath p) (sort xs)"
  by (induction xs) (simp_all add: insort_joinpath)

subsection \<open>What rendering leaves alone\<close>

lemma fs_emit [simp]: "fs (emit pl e w) = fs w"
  by (simp add: emit_def)

lemma fs_calls_emit [simp]: "fs_calls (emit pl e w) = fs_calls w"
  by (simp add: emit_def)

lemma page_emit [simp]: "page (emit pl e w) = page w @ [(pl, e)]"
  by (simp add: emit_def)

lemma report_cache_emit [simp]: "report_cache (emit pl e w) = report_cache w"
  by (simp add: emit_def)

lemma fs_render_parts: "fs (snd (render_parts xs acc w)) = fs w"
  by (induction xs acc w rule: render_parts.induct)
     (simp_all add: open_read_def split: prod.splits sum.splits option.splits node.splits)

lemma fs_display_report: "fs (snd (display_report get_report_name report_path w)) = fs w"
proof -
  have "fs (snd (case render_parts xs [] w' of
                   (Inl e, w6) \<Rightarrow> (Inl e, w6)
                 | (Inr report_contents, w6) \<Rightarrow>
                     (Inr (Contents report_contents), emit Page (Markdown ''</div>'') w6))) = fs w'"
    for xs w'
    using fs_render_parts [of xs "[]" w']
    by (cases "render_parts xs [] w'") (auto split: sum.splits)
  then show ?thesis
    by (simp add: display_report_def is_file_def is_dir_def listdir_def open_read_def st_tabs_def
        Let_def split: option.splits node.splits)
qed

lemma fs_cache_data:
  "(\<And>arg w. fs (snd (f arg w)) = fs w) \<Longrightarrow> fs (snd (cache_data f arg w)) = fs w"
proof -
  assume "\<And>arg w. fs (snd (f arg w)) = fs w"
  then have "fs (snd (f arg w)) = fs w" .
  then show ?thesis
    by (cases "f arg w") (simp add: cache_data_def split: option.splits sum.splits)
qed

subsection \<open>The loop over the parts\<close>

lemma render_parts_ok:
  "\<forall>q\<in>set qs. fs w q = Some (File (Some (c q))) \<Longrightarrow> length tabs = length qs \<Longrightarrow>
   render_parts (zip tabs qs) acc w =
     (Inr (acc @ map c qs),
      w\<lparr>page := page w @ map (\<lambda>(t, q). (t, Html (c q))) (zip tabs qs),
        fs_calls := fs_calls w @ map Open qs\<rparr>)"
proof (induction qs arbitrary: tabs acc w)
  case Nil
  then show ?case by simp
next
  case (Cons q qs)
  then obtain t ts where tabs: "tabs = t # ts" and len: "length ts = length qs"
    by (cases tabs) auto
  have q: "fs w q = Some (File (Some (c q)))" using Cons.prems(1) by simp
  let ?w1 = "emit t (Html (c q)) (w\<lparr>fs_calls := fs_calls w @ [Open q]\<rparr>)"
  have "\<forall>q'\<in>set qs. fs ?w1 q' = Some (File (Some (c q')))"
    using Cons.prems(1) by simp
  from Cons.IH [OF this len, of "acc @ [c q]"] show ?case
    by (simp add: tabs open_read_def q emit_def)
qed

lemma render_parts_raises:
  "length tabs = length qs \<Longrightarrow> \<exists>q\<in>set qs. \<forall>t. fs w q \<noteq> Some (File (Some t)) \<Longrightarrow>
   \<exists>e. fst (render_parts (zip tabs qs) acc w) = Inl e"
proof (induction qs arbitrary: tabs acc w)
  case Nil
  then show ?case by simp
next
  case (Cons q qs)
  then obtain t ts where tabs: "tabs = t # ts" and len: "length ts = length qs"
    by (cases tabs) auto
  show ?case
  proof (cases "\<exists>c. fs w q = Some (File (Some c))")
    case True
    then obtain c where c: "fs w q = Some (File (Some c))" by blast
    let ?w1 = "emit t (Html c) (w\<lparr>fs_calls := fs_calls w @ [Open q]\<rparr>)"
    from Cons.prems(2) c have "\<exists>q'\<in>set qs. \<forall>t. fs ?w1 q' \<noteq> Some (File (Some t))"
      by auto
    from Cons.IH [OF len this, of "acc @ [c]"] show ?thesis
      by (simp add: tabs open_read_def c)
  next
    case False
    then show ?thesis
      by (simp add: tabs open_read_def split: option.splits node.splits)
  qed
qed

lemma render_parts_directory:
  "length tabs = length qs \<Longrightarrow>
   \<forall>q\<in>set qs. (\<exists>t. fs w q = Some (File (Some t))) \<or> (\<exists>sub. fs w q = Some (Dir sub)) \<Longrightarrow>
   \<exists>q\<in>set qs. \<exists>sub. fs w q = Some (Dir sub) \<Longrightarrow>
   fst (render_parts (zip tabs qs) acc w) = Inl IsADirectoryError"
proof (induction qs arbitrary: tabs acc w)
  case Nil
  then show ?case by simp
next
  case (Cons q qs)
  then obtain t ts where tabs: "tabs = t # ts" and len: "length ts = length qs"
    by (cases tabs) auto
  show ?case
  proof (cases "\<exists>c. fs w q = Some (File (Some c))")
    case True
    then obtain c where c: "fs w q = Some (File (Some c))" by blast
    let ?w1 = "emit t (Html c) (w\<lparr>fs_calls := fs_calls w @ [Open q]\<rparr>)"
    from Cons.prems(2)
    have a: "\<forall>q'\<in>set qs. (\<exists>t. fs ?w1 q' = Some (File (Some t))) \<or>
                          (\<exists>sub. fs ?w1 q' = Some (Dir sub))"
      by simp
    from Cons.prems(3) c have b: "\<exists>q'\<in>set qs. \<exists>sub. fs ?w1 q' = Some (Dir sub)"
      by auto
    from Cons.IH [OF len a b, of "acc @ [c]"] show ?thesis
      by (simp add: tabs open_read_def c)
  next
    case False
    with Cons.prems(2) obtain sub where "fs w q = Some (Dir sub)" by auto
    then show ?thesis
      by (simp add: tabs open_read_def)
  qed
qed

subsection \<open>The directory branch\<close>

lemma display_report_directory_run:
  assumes "fs w report_path = Some (Dir names)" and "names \<noteq> []"
  shows \<open>display_report get_report_name report_path w =
     (case render_parts
             (zip (map Tab [0..<length names]) (map (joinpath report_path) (sort names))) []
             (w\<lparr>fs_calls := fs_calls w @ [IsFile report_path, IsDir report_path, ListDir report_path],
                page := page w @
                   [(Page, Markdown ''<div class="stReport">''),
                    (Page, Tabs (map (\<lambda>name. chart_up @ '' '' @ get_report_name (joinpath report_path name))
                                  (sort names)))]\<rparr>) of
        (Inl e, w6) \<Rightarrow> (Inl e, w6)
      | (Inr report_contents, w6) \<Rightarrow>
          (Inr (Contents report_contents), emit Page (Markdown ''</div>'') w6))\<close>
proof -
  have "length (sort names) \<noteq> 0"
    using assms(2) by simp
  then have "sort names \<noteq> []"
    by (simp del: length_sort)
  with assms(1) show ?thesis
    by (simp add: display_report_def is_file_def is_dir_def listdir_def st_tabs_def emit_def
        sort_joinpath comp_def Let_def)
qed

lemma display_report_readable_parts:
  assumes "fs w report_path = Some (Dir names)"
    and "names \<noteq> []"
    and "\<forall>name\<in>set names. fs w (joinpath report_path name) = Some (File (Some (content name)))"
  shows \<open>display_report get_report_name report_path w =
     (Inr (Contents (map content (sort names))),
      w\<lparr>fs_calls := fs_calls w @ [IsFile report_path, IsDir report_path, ListDir report_path] @
                     map (\<lambda>name. Open (joinpath report_path name)) (sort names),
        page := page w @
          [(Page, Markdown ''<div class="stReport">''),
           (Page, Tabs (map (\<lambda>name. chart_up @ '' '' @ get_report_name (joinpath report_path name))
                          (sort names)))] @
          map (\<lambda>(i, name). (Tab i, Html (content name))) (zip [0..<length names] (sort names)) @
          [(Page, Markdown ''</div>'')]\<rparr>)\<close>
proof -
  let ?qs = "map (joinpath report_path) (sort names)"
  let ?tabs = "map Tab [0..<length names]"
  let ?w5 = \<open>w\<lparr>fs_calls := fs_calls w @ [IsFile report_path, IsDir report_path, ListDir report_path],
              page := page w @
                [(Page, Markdown ''<div class="stReport">''),
                 (Page, Tabs (map (\<lambda>name. chart_up @ '' '' @ get_report_name (joinpath report_path name))
                                (sort names)))]\<rparr>\<close>
  have readable: "\<forall>q\<in>set ?qs. fs ?w5 q = Some (File (Some ((content \<circ> last) q)))"
    using assms(3) by (simp add: joinpath_def)
  have len: "length ?tabs = length ?qs"
    by simp
  have zipped: "map (\<lambda>(t, q). (t, Html ((content \<circ> last) q))) (zip ?tabs ?qs) =
      map (\<lambda>(i, name). (Tab i, Html (content name))) (zip [0..<length names] (sort names))"
    by (simp add: zip_map_map joinpath_def case_prod_beta)
  have contents: "map (content \<circ> last) ?qs = map content (sort names)"
    by (simp add: joinpath_def)
  have opens: "map Open ?qs = map (\<lambda>name. Open (joinpath report_path name)) (sort names)"
    by simp
  have "render_parts (zip ?tabs ?qs) [] ?w5 =
      (Inr (map content (sort names)),
       ?w5\<lparr>page := page ?w5 @
               map (\<lambda>(i, name). (Tab i, Html (content name))) (zip [0..<length names] (sort names)),
            fs_calls := fs_calls ?w5 @ map (\<lambda>name. Open (joinpath report_path name)) (sort names)\<rparr>)"
    using render_parts_ok [OF readable len, of "[]"] by (simp only: zipped contents opens append_Nil)
  then show ?thesis
    by (simp add: display_report_directory_run [OF assms(1,2)] emit_def)
qed

subsection \<open>The cache\<close>

lemma cache_data_stores:
  "cache_data f arg w = (Inr r, w1) \<Longrightarrow> \<exists>rendered. report_cache w1 arg = Some (r, rendered)"
  by (cases "f arg w") (auto simp: cache_data_def split: option.splits sum.splits)

lemma cache_data_hit:
  "report_cache w arg = Some (r, rendered) \<Longrightarrow>
   cache_data f arg w = (Inr r, w\<lparr>page := page w @ rendered\<rparr>)"
  by (simp add: cache_data_def)

section \<open>The claims\<close>

text \<open>
  Claim C1, as the code has it. For a report path that is a directory with at least one
  child, every child a regular file whose text can be read, one run of
  \<^verbatim>\<open>display_report\<close> returns the contents of the children in ascending order of
  their file names: as many contents as there are children, the names a sorted rearrangement
  of the listing. It renders one tab label per child, in the same order, each the chart
  pictograph, a space and \<^verbatim>\<open>get_report_name\<close> of the child's path, and one HTML
  block per child inside its tab.
\<close>

theorem display_report_sorted_parts:
  assumes "fs w report_path = Some (Dir names)"
    and "names \<noteq> []"
    and "\<forall>name\<in>set names. fs w (joinpath report_path name) = Some (File (Some (content name)))"
  shows \<open>display_report get_report_name report_path w =
     (Inr (Contents (map content (sort names))),
      w\<lparr>fs_calls := fs_calls w @ [IsFile report_path, IsDir report_path, ListDir report_path] @
                     map (\<lambda>name. Open (joinpath report_path name)) (sort names),
        page := page w @
          [(Page, Markdown ''<div class="stReport">''),
           (Page, Tabs (map (\<lambda>name. chart_up @ '' '' @ get_report_name (joinpath report_path name))
                          (sort names)))] @
          map (\<lambda>(i, name). (Tab i, Html (content name))) (zip [0..<length names] (sort names)) @
          [(Page, Markdown ''</div>'')]\<rparr>)
     \<and> sorted (sort names) \<and> mset (sort names) = mset names
     \<and> length (map content (sort names)) = length names
     \<and> length (map (\<lambda>name. chart_up @ '' '' @ get_report_name (joinpath report_path name))
                  (sort names)) = length names\<close>
  using display_report_readable_parts [OF assms, of get_report_name] by simp

theorem display_report_sorted_parts_witness:
  \<open>fst (display_report last [''reports'', ''drift''] example_world) =
     Inr (Contents [''<p>data</p>'', ''<p>target</p>''])
   \<and> filter (\<lambda>(pl, e). pl = Page)
        (page (snd (display_report last [''reports'', ''drift''] example_world))) =
     [(Page, Markdown ''<div class="stReport">''),
      (Page, Tabs [chart_up @ '' a_data.html'', chart_up @ '' b_target.html'']),
      (Page, Markdown ''</div>'')]\<close>
proof -
  have a: "fs example_world [''reports'', ''drift''] = Some (Dir [''b_target.html'', ''a_data.html''])"
    by (simp add: example_world_def example_fs_def)
  have b: "[''b_target.html'', ''a_data.html''] \<noteq> []"
    by simp
  have c: "\<forall>name\<in>set [''b_target.html'', ''a_data.html''].
      fs example_world (joinpath [''reports'', ''drift''] name) =
        Some (File (Some (example_content name)))"
    by (simp add: example_world_def example_fs_def joinpath_def example_content_def)
  have s: "sort [''b_target.html'', ''a_data.html''] = [''a_data.html'', ''b_target.html'']"
    by simp
  show ?thesis
    using display_report_sorted_parts [OF a b c, of last]
    by (simp add: s joinpath_def example_content_def example_world_def)
qed

text \<open>
  An empty directory is a directory with N = 0 files, and there the run returns no list:
  \<^verbatim>\<open>st.tabs\<close> is handed no label and raises.
\<close>

theorem display_report_empty_directory:
  "fs example_world [''reports'', ''empty''] = Some (Dir [])
   \<and> fst (display_report last [''reports'', ''empty''] example_world) = Inl StreamlitAPIException"
  by (simp add: example_world_def example_fs_def display_report_def is_file_def is_dir_def
      listdir_def st_tabs_def emit_def Let_def)

text \<open>
  Claim C2. For a report path that is a regular file with text \<open>content\<close>, one run of
  \<^verbatim>\<open>display_report\<close> returns the one-element list \<open>[content]\<close>; it opens the
  file once and embeds the text as one HTML block between the two wrapper lines.
\<close>

theorem display_report_file:
  assumes "fs w report_path = Some (File (Some content))"
  shows \<open>display_report get_report_name report_path w =
     (Inr (Contents [content]),
      w\<lparr>fs_calls := fs_calls w @ [IsFile report_path, Open report_path],
        page := page w @
          [(Page, Markdown ''<div class="stReport">''), (Page, Html content),
           (Page, Markdown ''</div>'')]\<rparr>)\<close>
  using assms
  by (simp add: display_report_def is_file_def open_read_def emit_def Let_def)

theorem display_report_file_witness:
  "fst (display_report last [''reports'', ''quality.html''] example_world) =
     Inr (Contents [''<h1>quality</h1>''])"
proof -
  have "fs example_world [''reports'', ''quality.html''] = Some (File (Some ''<h1>quality</h1>''))"
    by (simp add: example_world_def example_fs_def)
  from display_report_file [OF this, of last] show ?thesis
    by simp
qed

text \<open>
  Claim C3. For a report path at which there is neither a file nor a directory, one run of
  \<^verbatim>\<open>display_report\<close> raises nothing: it returns, as its value, the
  \<^verbatim>\<open>EntityNotFoundError\<close> object it has constructed, after rendering the two wrapper
  lines.
\<close>

theorem display_report_not_found:
  assumes "fs w report_path = None"
  shows \<open>display_report get_report_name report_path w =
     (Inr (ErrorValue (EntityNotFoundError (magnifier @ '' No reports found''))),
      w\<lparr>fs_calls := fs_calls w @ [IsFile report_path, IsDir report_path],
        page := page w @
          [(Page, Markdown ''<div class="stReport">''), (Page, Markdown ''</div>'')]\<rparr>)\<close>
  using assms
  by (simp add: display_report_def is_file_def is_dir_def emit_def Let_def)

theorem display_report_not_found_witness:
  "fst (display_report last [''reports'', ''missing''] example_world) =
     Inr (ErrorValue (EntityNotFoundError (magnifier @ '' No reports found'')))"
proof -
  have "fs example_world [''reports'', ''missing''] = None"
    by (simp add: example_world_def example_fs_def)
  from display_report_not_found [OF this, of last] show ?thesis
    by simp
qed

text \<open>
  Claim C4. On the empty list each of the three selectors raises
  \<^verbatim>\<open>EntityNotFoundError\<close>, renders nothing, and the message the error carries is not
  empty.
\<close>

theorem selectors_empty:
  "select_project [] w = (Inl (EntityNotFoundError (magnifier @ '' Projects not found'')), w)
   \<and> select_period period_dir_to_dates_range [] w =
       (Inl (EntityNotFoundError (magnifier @ '' No periods found'')), w)
   \<and> select_report [] w = (Inl (EntityNotFoundError (magnifier @ '' Reports not found'')), w)
   \<and> magnifier @ '' Projects not found'' \<noteq> []
   \<and> magnifier @ '' No periods found'' \<noteq> []
   \<and> magnifier @ '' Reports not found'' \<noteq> []"
  by (simp add: select_project_def select_period_def select_report_def)

text \<open>
  Claim C5, as the code has it. On a non-empty list of options no selector raises. Each
  renders one dropdown in the sidebar, showing the options, with the option picked by the
  user selected: the option at the stored index, the first option when that index is out of
  range. \<^verbatim>\<open>select_period\<close> and \<^verbatim>\<open>select_report\<close> return exactly that
  option, an element of the list; \<^verbatim>\<open>select_project\<close> returns the
  \<^verbatim>\<open>Path\<close> constructed from that option.
\<close>

theorem selectors_return_picked:
  assumes "options \<noteq> []"
  shows "select_project options w =
      (Inr (Path (options ! (if picked w (briefcase @ '' Select project'') < length options
                             then picked w (briefcase @ '' Select project'') else 0))),
       w\<lparr>page := page w @
          [(Sidebar, Selectbox (briefcase @ '' Select project'') options
                       (if picked w (briefcase @ '' Select project'') < length options
                        then picked w (briefcase @ '' Select project'') else 0))]\<rparr>)
    \<and> select_period period_dir_to_dates_range options w =
      (Inr (Some (options ! (if picked w (tear_off_calendar @ '' Select period'') < length options
                             then picked w (tear_off_calendar @ '' Select period'') else 0))),
       w\<lparr>page := page w @
          [(Sidebar, Selectbox (tear_off_calendar @ '' Select period'')
                       (map period_dir_to_dates_range options)
                       (if picked w (tear_off_calendar @ '' Select period'') < length options
                        then picked w (tear_off_calendar @ '' Select period'') else 0))]\<rparr>)
    \<and> select_report options w =
      (Inr (Some (options ! (if picked w (chart_up @ '' Select report'') < length options
                             then picked w (chart_up @ '' Select report'') else 0))),
       w\<lparr>page := page w @
          [(Sidebar, Selectbox (chart_up @ '' Select report'') options
                       (if picked w (chart_up @ '' Select report'') < length options
                        then picked w (chart_up @ '' Select report'') else 0))]\<rparr>)
    \<and> options ! (if picked w (briefcase @ '' Select project'') < length options
                  then picked w (briefcase @ '' Select project'') else 0) \<in> set options
    \<and> options ! (if picked w (tear_off_calendar @ '' Select period'') < length options
                  then picked w (tear_off_calendar @ '' Select period'') else 0) \<in> set options
    \<and> options ! (if picked w (chart_up @ '' Select report'') < length options
                  then picked w (chart_up @ '' Select report'') else 0) \<in> set options"
proof -
  have pick: "options ! (if picked w label < length options then picked w label else 0) \<in> set options"
    for label
    using assms by simp
  have project: "select_project options w =
      (Inr (Path (options ! (if picked w (briefcase @ '' Select project'') < length options
                             then picked w (briefcase @ '' Select project'') else 0))),
       w\<lparr>page := page w @
          [(Sidebar, Selectbox (briefcase @ '' Select project'') options
                       (if picked w (briefcase @ '' Select project'') < length options
                        then picked w (briefcase @ '' Select project'') else 0))]\<rparr>)"
    using assms by (simp add: select_project_def selectbox_def Let_def emit_def)
  have period: "select_period period_dir_to_dates_range options w =
      (Inr (Some (options ! (if picked w (tear_off_calendar @ '' Select period'') < length options
                             then picked w (tear_off_calendar @ '' Select period'') else 0))),
       w\<lparr>page := page w @
          [(Sidebar, Selectbox (tear_off_calendar @ '' Select period'')
                       (map period_dir_to_dates_range options)
                       (if picked w (tear_off_calendar @ '' Select period'') < length options
                        then picked w (tear_off_calendar @ '' Select period'') else 0))]\<rparr>)"
    using assms by (simp add: select_period_def selectbox_def Let_def emit_def)
  have report: "select_report options w =
      (Inr (Some (options ! (if picked w (chart_up @ '' Select report'') < length options
                             then picked w (chart_up @ '' Select report'') else 0))),
       w\<lparr>page := page w @
          [(Sidebar, Selectbox (chart_up @ '' Select report'') options
                       (if picked w (chart_up @ '' Select report'') < length options
                        then picked w (chart_up @ '' Select report'') else 0))]\<rparr>)"
    using assms by (simp add: select_report_def selectbox_def Let_def emit_def)
  from project period report pick [of "briefcase @ '' Select project''"]
    pick [of "tear_off_calendar @ '' Select period''"] pick [of "chart_up @ '' Select report''"]
  show ?thesis
    by (intro conjI)
qed

theorem selectors_return_picked_witness:
  "select_project [''bike'', ''taxi'', ''tram''] example_world =
     (Inr [''taxi''],
      example_world\<lparr>page :=
        [(Sidebar, Selectbox (briefcase @ '' Select project'') [''bike'', ''taxi'', ''tram''] 1)]\<rparr>)
   \<and> select_period rev [''2021_01'', ''2021_02'', ''2021_03''] example_world =
     (Inr (Some ''2021_02''),
      example_world\<lparr>page :=
        [(Sidebar, Selectbox (tear_off_calendar @ '' Select period'')
                     [''10_1202'', ''20_1202'', ''30_1202''] 1)]\<rparr>)
   \<and> select_report [''drift'', ''quality'', ''target''] example_world =
     (Inr (Some ''quality''),
      example_world\<lparr>page :=
        [(Sidebar, Selectbox (chart_up @ '' Select report'') [''drift'', ''quality'', ''target''] 1)]\<rparr>)"
proof -
  have a: "[''bike'', ''taxi'', ''tram''] \<noteq> []"
    and b: "[''2021_01'', ''2021_02'', ''2021_03''] \<noteq> []"
    and c: "[''drift'', ''quality'', ''target''] \<noteq> []"
    by simp_all
  have taxi: "Path ''taxi'' = [''taxi'']"
    by (simp add: Path_def)
  show ?thesis
    using selectors_return_picked [OF a, of example_world rev]
      selectors_return_picked [OF b, of example_world rev]
      selectors_return_picked [OF c, of example_world rev]
    by (simp add: taxi example_world_def)
qed

text \<open>
  What \<^verbatim>\<open>select_project\<close> returns is not an element of the list it was given: the
  option \<^verbatim>\<open>a//b/\<close> comes back as the path with the two parts \<^verbatim>\<open>a\<close> and
  \<^verbatim>\<open>b\<close>.
\<close>

theorem select_project_returns_path:
  "fst (select_project [''a//b/''] example_world) = Inr [''a'', ''b'']
   \<and> [''a'', ''b''] \<noteq> [''a//b/'']"
  by (simp add: select_project_def selectbox_def Let_def example_world_def Path_def)

text \<open>
  Claim C6. Once a call of the cached \<^verbatim>\<open>display_report\<close> has returned a value for a
  path, a later call with the same path, made while the cache still holds the entry, returns
  the same value and makes no call to the file system, whatever the file system holds by
  then.
\<close>

theorem display_report_cache_hit:
  assumes "display_report_cached get_report_name report_path w = (Inr r, w1)"
    and "report_cache w2 report_path = report_cache w1 report_path"
  shows "fst (display_report_cached get_report_name report_path w2) = Inr r
    \<and> fs_calls (snd (display_report_cached get_report_name report_path w2)) = fs_calls w2"
proof -
  from assms(1) obtain rendered where "report_cache w1 report_path = Some (r, rendered)"
    unfolding display_report_cached_def by (blast dest: cache_data_stores)
  with assms(2) have "report_cache w2 report_path = Some (r, rendered)"
    by simp
  then show ?thesis
    unfolding display_report_cached_def by (simp add: cache_data_hit)
qed

theorem display_report_cache_hit_witness:
  "fst (display_report_cached last [''reports'', ''quality.html'']
          (snd (display_report_cached last [''reports'', ''quality.html''] example_world)
             \<lparr>fs := (\<lambda>p. None)\<rparr>)) =
     Inr (Contents [''<h1>quality</h1>''])"
proof -
  let ?p = "[''reports'', ''quality.html'']"
  let ?w1 = "snd (display_report_cached last ?p example_world)"
  have "fst (display_report_cached last ?p example_world) = Inr (Contents [''<h1>quality</h1>''])"
    by (simp add: display_report_cached_def cache_data_def display_report_def is_file_def
        open_read_def emit_def Let_def example_world_def example_fs_def)
  then have first: "display_report_cached last ?p example_world =
      (Inr (Contents [''<h1>quality</h1>'']), ?w1)"
    by (simp add: prod_eq_iff)
  have kept: "report_cache (?w1\<lparr>fs := (\<lambda>p. None)\<rparr>) ?p = report_cache ?w1 ?p"
    by simp
  from display_report_cache_hit [OF first kept] show ?thesis
    by simp
qed

text \<open>
  Claim C7. No function of the module changes the file system: after the style injector,
  the sidebar header, each selector, the header renderer and the report renderer (one run of
  it, or a call through the cache), the file system is the one before the call.
\<close>

theorem filesystem_unchanged:
  "fs (set_page_container_style w) = fs w
   \<and> fs (snd (display_sidebar_header w)) = fs w
   \<and> fs (snd (select_project projects w)) = fs w
   \<and> fs (snd (select_period period_dir_to_dates_range periods w)) = fs w
   \<and> fs (snd (select_report report_names w)) = fs w
   \<and> fs (display_header period_dir_to_dates_range project_name period report_name w) = fs w
   \<and> fs (snd (display_report get_report_name report_path w)) = fs w
   \<and> fs (snd (display_report_cached get_report_name report_path w)) = fs w"
proof -
  have "fs (set_page_container_style w) = fs w"
    by (simp add: set_page_container_style_def)
  moreover have "fs (snd (display_sidebar_header w)) = fs w"
    by (simp add: display_sidebar_header_def open_read_def Let_def
        split: option.splits node.splits)
  moreover have "fs (snd (select_project projects w)) = fs w"
    by (simp add: select_project_def selectbox_def Let_def)
  moreover have "fs (snd (select_period period_dir_to_dates_range periods w)) = fs w"
    by (simp add: select_period_def selectbox_def Let_def)
  moreover have "fs (snd (select_report report_names w)) = fs w"
    by (simp add: select_report_def selectbox_def Let_def)
  moreover have "fs (display_header period_dir_to_dates_range project_name period report_name w) = fs w"
    by (simp add: display_header_def Let_def)
  moreover have "fs (snd (display_report get_report_name report_path w)) = fs w"
    by (rule fs_display_report)
  moreover have "fs (snd (display_report_cached get_report_name report_path w)) = fs w"
    unfolding display_report_cached_def by (rule fs_cache_data) (rule fs_display_report)
  ultimately show ?thesis
    by blast
qed

text \<open>
  Claim C8. For every project name, period and report name, \<^verbatim>\<open>display_header\<close>
  applies \<^verbatim>\<open>period_dir_to_dates_range\<close> to the period and renders, between the two
  wrapper lines, exactly three lines of text: the project caption, the report heading and
  the period caption with the formatted period. It checks nothing and has no raising branch.
\<close>

theorem display_header_renders:
  \<open>display_header period_dir_to_dates_range project_name period report_name w =
     w\<lparr>page := page w @
       [(Page, Markdown ''<div class="stHeader">''),
        (Page, Caption (briefcase @ '' Project: '' @ project_name)),
        (Page, Header (bar_chart @ '' '' @ report_name)),
        (Page, Caption (calendar @ '' Period: '' @ period_dir_to_dates_range period)),
        (Page, Markdown ''</div>'')]\<rparr>\<close>
  by (simp add: display_header_def emit_def Let_def)



text \<open>
  Claim C10, as the code has it. For a report path that is a directory with at least one
  child, one run of \<^verbatim>\<open>display_report\<close> returns exactly when every child is a regular
  file whose text can be read, and then it has opened every child, in ascending order of the
  names. A child that is itself a directory makes the run raise; when every child is a
  readable file or a directory, what it raises is the \<^verbatim>\<open>IsADirectoryError\<close> of the
  open on the first such child.
\<close>

theorem display_report_opens_children:
  assumes "fs w report_path = Some (Dir names)" and "names \<noteq> []"
  shows "((\<exists>r w1. display_report get_report_name report_path w = (Inr r, w1)) \<longleftrightarrow>
          (\<forall>name\<in>set names. \<exists>t. fs w (joinpath report_path name) = Some (File (Some t))))
    \<and> ((\<forall>name\<in>set names. \<exists>t. fs w (joinpath report_path name) = Some (File (Some t))) \<longrightarrow>
         fs_calls (snd (display_report get_report_name report_path w)) =
           fs_calls w @ [IsFile report_path, IsDir report_path, ListDir report_path] @
           map (\<lambda>name. Open (joinpath report_path name)) (sort names))
    \<and> ((\<exists>name\<in>set names. \<exists>sub. fs w (joinpath report_path name) = Some (Dir sub)) \<longrightarrow>
         (\<exists>e. fst (display_report get_report_name report_path w) = Inl e))
    \<and> ((\<exists>name\<in>set names. \<exists>sub. fs w (joinpath report_path name) = Some (Dir sub)) \<and>
        (\<forall>name\<in>set names. (\<exists>t. fs w (joinpath report_path name) = Some (File (Some t))) \<or>
                            (\<exists>sub. fs w (joinpath report_path name) = Some (Dir sub))) \<longrightarrow>
         fst (display_report get_report_name report_path w) = Inl IsADirectoryError)"
proof -
  let ?qs = "map (joinpath report_path) (sort names)"
  let ?tabs = "map Tab [0..<length names]"
  let ?w5 = \<open>w\<lparr>fs_calls := fs_calls w @ [IsFile report_path, IsDir report_path, ListDir report_path],
              page := page w @
                [(Page, Markdown ''<div class="stReport">''),
                 (Page, Tabs (map (\<lambda>name. chart_up @ '' '' @ get_report_name (joinpath report_path name))
                                (sort names)))]\<rparr>\<close>
  let ?readable = "\<forall>name\<in>set names. \<exists>t. fs w (joinpath report_path name) = Some (File (Some t))"
  note run = display_report_directory_run [OF assms, of get_report_name]
  have len: "length ?tabs = length ?qs"
    by simp
  have ok: "(\<exists>r w1. display_report get_report_name report_path w = (Inr r, w1)) \<and>
      fs_calls (snd (display_report get_report_name report_path w)) =
        fs_calls w @ [IsFile report_path, IsDir report_path, ListDir report_path] @
        map (\<lambda>name. Open (joinpath report_path name)) (sort names)" if ?readable
  proof -
    from bchoice [OF that] obtain content
      where "\<forall>name\<in>set names. fs w (joinpath report_path name) = Some (File (Some (content name)))"
      by blast
    from display_report_readable_parts [OF assms this, of get_report_name] show ?thesis
      by simp
  qed
  have bad: "\<exists>e. fst (display_report get_report_name report_path w) = Inl e" if "\<not> ?readable"
  proof -
    from that have "\<exists>q\<in>set ?qs. \<forall>t. fs ?w5 q \<noteq> Some (File (Some t))"
      by auto
    from render_parts_raises [OF len this, of "[]"] show ?thesis
      by (auto simp: run split: prod.splits sum.splits)
  qed
  have dir: "fst (display_report get_report_name report_path w) = Inl IsADirectoryError"
    if "\<exists>name\<in>set names. \<exists>sub. fs w (joinpath report_path name) = Some (Dir sub)"
      and "\<forall>name\<in>set names. (\<exists>t. fs w (joinpath report_path name) = Some (File (Some t))) \<or>
                            (\<exists>sub. fs w (joinpath report_path name) = Some (Dir sub))"
  proof -
    from that(2)
    have a: "\<forall>q\<in>set ?qs. (\<exists>t. fs ?w5 q = Some (File (Some t))) \<or> (\<exists>sub. fs ?w5 q = Some (Dir sub))"
      by auto
    from that(1) have b: "\<exists>q\<in>set ?qs. \<exists>sub. fs ?w5 q = Some (Dir sub)"
      by auto
    from render_parts_directory [OF len a b, of "[]"] show ?thesis
      by (auto simp: run split: prod.splits sum.splits)
  qed
  have iff: "(\<exists>r w1. display_report get_report_name report_path w = (Inr r, w1)) \<longleftrightarrow> ?readable"
    using ok bad by (metis Inl_Inr_False fst_conv)
  have sub: "\<exists>e. fst (display_report get_report_name report_path w) = Inl e"
    if "\<exists>name\<in>set names. \<exists>sub. fs w (joinpath report_path name) = Some (Dir sub)"
  proof -
    from that obtain name sub
      where "name \<in> set names" and "fs w (joinpath report_path name) = Some (Dir sub)"
      by blast
    then have "\<not> ?readable"
      by (metis node.distinct(1) option.inject)
    then show ?thesis by (rule bad)
  qed
  from iff ok dir sub show ?thesis
    by blast
qed

theorem display_report_opens_children_witness:
  "fst (display_report last [''reports'', ''mixed''] example_world) = Inl IsADirectoryError
   \<and> fs_calls (snd (display_report last [''reports'', ''drift''] example_world)) =
       [IsFile [''reports'', ''drift''], IsDir [''reports'', ''drift''],
        ListDir [''reports'', ''drift''],
        Open [''reports'', ''drift'', ''a_data.html''],
        Open [''reports'', ''drift'', ''b_target.html'']]"
proof -
  have a: "fs example_world [''reports'', ''mixed''] = Some (Dir [''part.html'', ''assets''])"
    by (simp add: example_world_def example_fs_def)
  have b: "[''part.html'', ''assets''] \<noteq> []"
    by simp
  have c: "\<exists>name\<in>set [''part.html'', ''assets'']. \<exists>sub.
      fs example_world (joinpath [''reports'', ''mixed''] name) = Some (Dir sub)"
    by (simp add: example_world_def example_fs_def joinpath_def)
  have d: "\<forall>name\<in>set [''part.html'', ''assets''].
      (\<exists>t. fs example_world (joinpath [''reports'', ''mixed''] name) = Some (File (Some t))) \<or>
      (\<exists>sub. fs example_world (joinpath [''reports'', ''mixed''] name) = Some (Dir sub))"
    by (simp add: example_world_def example_fs_def joinpath_def)
  have e: "fs example_world [''reports'', ''drift''] = Some (Dir [''b_target.html'', ''a_data.html''])"
    by (simp add: example_world_def example_fs_def)
  have f: "[''b_target.html'', ''a_data.html''] \<noteq> []"
    by simp
  have g: "\<forall>name\<in>set [''b_target.html'', ''a_data.html''].
      \<exists>t. fs example_world (joinpath [''reports'', ''drift''] name) = Some (File (Some t))"
    by (simp add: example_world_def example_fs_def joinpath_def)
  have s: "sort [''b_target.html'', ''a_data.html''] = [''a_data.html'', ''b_target.html'']"
    by simp
  have h: "fs_calls example_world = []"
    by (simp add: example_world_def)
  show ?thesis
    using display_report_opens_children [OF a b, of last] c d
      display_report_opens_children [OF e f, of last] g
    by (simp add: s h joinpath_def)
qed

text \<open>
  In an empty directory every child is a readable regular file, there being none, and yet
  the run does not complete: it raises and returns no list of contents.
\<close>

theorem display_report_no_children_raises:
  "fs example_world [''reports'', ''empty''] = Some (Dir [])
   \<and> list_all (\<lambda>name. \<exists>t. fs example_world (joinpath [''reports'', ''empty''] name) =
                              Some (File (Some t))) []
   \<and> fst (display_report last [''reports'', ''empty''] example_world) = Inl StreamlitAPIException
   \<and> fst (display_report last [''reports'', ''empty''] example_world) \<noteq> Inr (Contents [])"
  by (simp add: example_world_def example_fs_def display_report_def is_file_def is_dir_def
      listdir_def st_tabs_def emit_def Let_def)

end
